theory Spec2Isabelle
  imports Main "HOL-Library.Word" "HOL-Library.Sublist"
begin

section \<open>JavaScript values used by the service\<close>

text \<open>
  A JavaScript string is a sequence of 16-bit code units. The three string methods the
  service calls are \<^verbatim>\<open>trim\<close>, \<^verbatim>\<open>toLowerCase\<close> and \<^verbatim>\<open>includes\<close>.
  \<open>lit\<close> embeds an ASCII literal of the source.
\<close>

type_synonym jsstring = "16 word list"

definition lit :: "string \<Rightarrow> jsstring" where
  "lit s = map of_char s"

text \<open>
  \<^verbatim>\<open>trim\<close> removes the code units of ECMAScript's WhiteSpace and LineTerminator
  productions from both ends.
\<close>

definition isWhiteSpace :: "16 word \<Rightarrow> bool" where
  "isWhiteSpace c =
     (c \<in> {0x0009, 0x000A, 0x000B, 0x000C, 0x000D, 0x0020, 0x00A0, 0x1680,
            0x2028, 0x2029, 0x202F, 0x205F, 0x3000, 0xFEFF}
      \<or> (0x2000 \<le> c \<and> c \<le> 0x200A))"

definition String_trim :: "jsstring \<Rightarrow> jsstring" where
  "String_trim s = rev (dropWhile isWhiteSpace (rev (dropWhile isWhiteSpace s)))"

text \<open>\<^verbatim>\<open>s.includes(t)\<close>: \<open>t\<close> occurs in \<open>s\<close> as a contiguous run of code units.\<close>

definition String_includes :: "jsstring \<Rightarrow> jsstring \<Rightarrow> bool" where
  "String_includes s t = sublist t s"

text \<open>
  \<^verbatim>\<open>toLowerCase\<close> maps \<open>A\<close>..\<open>Z\<close> to \<open>a\<close>..\<open>z\<close> and leaves every other ASCII code unit
  alone. On a string that holds a code unit outside ASCII it applies the Unicode case
  mapping, which is no part of this repository: the function \<open>unicodeLower\<close> stands for
  it, and every result below holds whatever that function is.
\<close>

definition toLowerUnit :: "16 word \<Rightarrow> 16 word" where
  "toLowerUnit c = (if 0x41 \<le> c \<and> c \<le> 0x5A then c + 0x20 else c)"

definition String_toLowerCase :: "(jsstring \<Rightarrow> jsstring) \<Rightarrow> jsstring \<Rightarrow> jsstring" where
  "String_toLowerCase unicodeLower s =
     (if list_all (\<lambda>c. c < 0x80) s then map toLowerUnit s else unicodeLower s)"

text \<open>
  An optional string argument (\<^verbatim>\<open>apiKey?: string\<close>, \<^verbatim>\<open>process.env.API_KEY\<close>) is
  \<open>None\<close> when undefined. In a condition it counts as true when it is a non-empty string.
\<close>

definition truthy :: "jsstring option \<Rightarrow> bool" where
  "truthy v = (case v of None \<Rightarrow> False | Some s \<Rightarrow> s \<noteq> [])"

text \<open>
  What a \<^verbatim>\<open>throw\<close> carries: an \<^verbatim>\<open>Error\<close> object with its message, or some value that
  is not an instance of \<^verbatim>\<open>Error\<close>.
\<close>

datatype thrown = Error jsstring | NotAnError

section \<open>Requests and responses of the SDK\<close>

text \<open>
  \<^verbatim>\<open>interface ImageInput { data: string; mimeType: string }\<close>. The \<^verbatim>\<open>inlineData\<close> object
  of a content part has the same two fields, so it shares the record.
\<close>

record ImageInput =
  data :: jsstring
  mimeType :: jsstring

text \<open>
  A content part, \<^verbatim>\<open>{ text }\<close> or \<^verbatim>\<open>{ inlineData }\<close>: a key the object does not have is
  \<open>None\<close>. The field \<open>text'\<close> is the source's \<^verbatim>\<open>text\<close>.
\<close>

record Part =
  text' :: "jsstring option"
  inlineData :: "ImageInput option"

text \<open>
  The argument of \<^verbatim>\<open>ai.models.generateImages\<close>; the fields \<open>gi_x\<close> are the keys \<open>x\<close> of
  the object literal at lines 41 to 49.
\<close>

record GenerateImagesConfig =
  gi_numberOfImages :: nat
  gi_outputMimeType :: jsstring
  gi_aspectRatio :: jsstring

record GenerateImagesParameters =
  gi_model :: jsstring
  gi_prompt :: jsstring
  gi_config :: GenerateImagesConfig

text \<open>
  The response of \<^verbatim>\<open>generateImages\<close>, as far as the service reads it:
  \<^verbatim>\<open>response.generatedImages\<close> is tested before it is used, so it is optional;
  \<^verbatim>\<open>generatedImages[0].image.imageBytes\<close> is read with no test and returned as the
  \<^verbatim>\<open>string\<close> the function promises, so both fields are taken to be there. The field
  \<open>image'\<close> is the source's \<^verbatim>\<open>image\<close>.
\<close>

record Image =
  imageBytes :: jsstring

record GeneratedImage =
  image' :: Image

record GenerateImagesResponse =
  generatedImages :: "GeneratedImage list option"

text \<open>
  The argument of \<^verbatim>\<open>ai.models.generateContent\<close> (lines 74 to 80), fields \<open>gc_x\<close> for
  the keys \<open>x\<close>, and its response, whose path
  \<^verbatim>\<open>response.candidates?.[0]?.content?.parts\<close> is optional at every step.
\<close>

datatype Modality = IMAGE | TEXT

record Content =
  parts :: "Part list option"

record GenerateContentConfig =
  gc_responseModalities :: "Modality list"

record GenerateContentParameters =
  gc_model :: jsstring
  gc_contents :: Content
  gc_config :: GenerateContentConfig

record Candidate =
  content :: "Content option"

record GenerateContentResponse =
  candidates :: "Candidate list option"

text \<open>
  A client handle, \<^verbatim>\<open>new GoogleGenAI({ apiKey: k })\<close>, is the credential it is bound to.
\<close>

datatype GoogleGenAI = GoogleGenAI jsstring

text \<open>
  The backend behind \<^verbatim>\<open>ai.models\<close>: each operation, called through a client with a
  request, either throws or answers. The backend is outside the repository, so it is a
  parameter of the service.
\<close>

record Models =
  generateImages :: "GoogleGenAI \<Rightarrow> GenerateImagesParameters \<Rightarrow> thrown + GenerateImagesResponse"
  generateContent :: "GoogleGenAI \<Rightarrow> GenerateContentParameters \<Rightarrow> thrown + GenerateContentResponse"

text \<open>
  The effects of one invocation, in the order they happen: the backend operations it
  calls, and the entry \<^verbatim>\<open>console.error\<close> writes (its label and the value caught).
\<close>

datatype effect =
    CallGenerateImages GoogleGenAI GenerateImagesParameters
  | CallGenerateContent GoogleGenAI GenerateContentParameters
  | ConsoleError jsstring thrown

fun isBackendCall :: "effect \<Rightarrow> bool" where
  "isBackendCall (CallGenerateImages ai request) = True"
| "isBackendCall (CallGenerateContent ai request) = True"
| "isBackendCall (ConsoleError label error) = False"

definition backendCalls :: "effect list \<Rightarrow> effect list" where
  "backendCalls effects = filter isBackendCall effects"

section \<open>services/geminiService.ts\<close>

text \<open>
  \<open>getAiClient\<close>, lines 8 to 20. \<open>env_API_KEY\<close> is \<^verbatim>\<open>process.env.API_KEY\<close>;
  \<^verbatim>\<open>apiKey || process.env.API_KEY\<close> is the override when it is truthy and the default
  otherwise.
\<close>

definition getAiClient :: "jsstring option \<Rightarrow> jsstring option \<Rightarrow> thrown + GoogleGenAI" where
  "getAiClient env_API_KEY apiKey =
     (let effectiveApiKey = (if truthy apiKey then apiKey else env_API_KEY) in
      case effectiveApiKey of
        None \<Rightarrow>
          Inl (Error (lit ''API key not provided. Please enter a key or configure the environment variable.''))
      | Some k \<Rightarrow>
          if k = []
          then Inl (Error (lit ''API key not provided. Please enter a key or configure the environment variable.''))
          else Inr (GoogleGenAI k))"

text \<open>
  The loop of lines 82 to 86 over the parts of the response: the first part with
  \<^verbatim>\<open>inlineData\<close> ends it.
\<close>

fun scanParts :: "Part list \<Rightarrow> jsstring option" where
  "scanParts [] = None"
| "scanParts (part # rest) =
     (case inlineData part of
        Some blob \<Rightarrow> Some (data blob)
      | None \<Rightarrow> scanParts rest)"

text \<open>\<^verbatim>\<open>response.candidates?.[0]?.content?.parts ?? []\<close>, line 82.\<close>

definition responseParts :: "GenerateContentResponse \<Rightarrow> Part list" where
  "responseParts response =
     (case candidates response of
        None \<Rightarrow> []
      | Some [] \<Rightarrow> []
      | Some (candidate # others) \<Rightarrow>
          (case content candidate of
             None \<Rightarrow> []
           | Some c \<Rightarrow> (case parts c of None \<Rightarrow> [] | Some ps \<Rightarrow> ps)))"

text \<open>
  Lines 40 to 89, the \<^verbatim>\<open>try\<close> block after the client is resolved. The result is the
  list of effects and either the value thrown (\<open>Inl\<close>) or the value returned (\<open>Inr\<close>).
  \<open>parts0\<close>, \<open>parts1\<close> and \<open>parts2\<close> are the array \<^verbatim>\<open>parts\<close> when it is created and
  after each conditional \<^verbatim>\<open>push\<close>.
\<close>

definition dispatch ::
  "Models \<Rightarrow> GoogleGenAI \<Rightarrow> jsstring \<Rightarrow> jsstring \<Rightarrow> jsstring \<Rightarrow> ImageInput option
     \<Rightarrow> effect list \<times> (thrown + jsstring)" where
  "dispatch backend ai prompt aspectRatio model image_in =
     (if model = lit ''imagen-4.0-generate-001'' then
        (let request =
               \<lparr>gi_model = lit ''imagen-4.0-generate-001'',
                gi_prompt = prompt,
                gi_config = \<lparr>gi_numberOfImages = 1,
                             gi_outputMimeType = lit ''image/png'',
                             gi_aspectRatio = aspectRatio\<rparr>\<rparr>
         in case generateImages backend ai request of
              Inl error \<Rightarrow> ([CallGenerateImages ai request], Inl error)
            | Inr response \<Rightarrow>
                (case generatedImages response of
                   Some (first # others) \<Rightarrow>
                     ([CallGenerateImages ai request], Inr (imageBytes (image' first)))
                 | Some [] \<Rightarrow>
                     ([CallGenerateImages ai request], Inl (Error (lit ''error_no_images_returned'')))
                 | None \<Rightarrow>
                     ([CallGenerateImages ai request], Inl (Error (lit ''error_no_images_returned'')))))
      else if model = lit ''gemini-2.5-flash-image-preview'' then
        (let parts0 = [];
             parts1 = (case image_in of
                         Some i \<Rightarrow>
                           parts0 @ [\<lparr>text' = None,
                                      inlineData = Some \<lparr>data = data i, mimeType = mimeType i\<rparr>\<rparr>]
                       | None \<Rightarrow> parts0);
             parts2 = (if String_trim prompt \<noteq> []
                       then parts1 @ [\<lparr>text' = Some prompt, inlineData = None\<rparr>]
                       else parts1)
         in if length parts2 = 0
            then ([], Inl (Error (lit ''error_prompt_or_image_required_for_edit'')))
            else
              (let request =
                     \<lparr>gc_model = lit ''gemini-2.5-flash-image-preview'',
                      gc_contents = \<lparr>parts = Some parts2\<rparr>,
                      gc_config = \<lparr>gc_responseModalities = [IMAGE, TEXT]\<rparr>\<rparr>
               in case generateContent backend ai request of
                    Inl error \<Rightarrow> ([CallGenerateContent ai request], Inl error)
                  | Inr response \<Rightarrow>
                      (case scanParts (responseParts response) of
                         Some payload \<Rightarrow> ([CallGenerateContent ai request], Inr payload)
                       | None \<Rightarrow>
                           ([CallGenerateContent ai request],
                            Inl (Error (lit ''error_no_images_returned''))))))
      else ([], Inl (Error (lit ''error_no_images_returned''))))"

text \<open>
  Lines 91 to 106, the \<^verbatim>\<open>catch\<close> block: it logs the value caught and always throws
  one of three codes.
\<close>

definition catchBlock :: "(jsstring \<Rightarrow> jsstring) \<Rightarrow> thrown \<Rightarrow> effect list \<times> thrown" where
  "catchBlock unicodeLower error =
     ([ConsoleError (lit ''Error generating image with Gemini API:'') error],
      (case error of
         Error message \<Rightarrow>
           (let errorMessage = String_toLowerCase unicodeLower message in
            if String_includes errorMessage (lit ''429'')
               \<or> String_includes errorMessage (lit ''quota'')
               \<or> String_includes errorMessage (lit ''resource_exhausted'')
            then Error (lit ''error_quota'')
            else if String_includes errorMessage (lit ''api'')
                    \<and> String_includes errorMessage (lit ''key'')
            then Error (lit ''error_api_key'')
            else Error (lit ''error_generic''))
       | NotAnError \<Rightarrow> Error (lit ''error_generic'')))"

text \<open>
  \<^verbatim>\<open>try { ... } catch (error) { ... }\<close>: a value the block returns passes through, a
  value it throws goes to the \<^verbatim>\<open>catch\<close> block.
\<close>

definition tryCatch ::
  "(jsstring \<Rightarrow> jsstring) \<Rightarrow> effect list \<times> (thrown + jsstring) \<Rightarrow> effect list \<times> (thrown + jsstring)" where
  "tryCatch unicodeLower block =
     (case block of
        (effects, Inr payload) \<Rightarrow> (effects, Inr payload)
      | (effects, Inl error) \<Rightarrow>
          (case catchBlock unicodeLower error of
             (logged, rethrown) \<Rightarrow> (effects @ logged, Inl rethrown)))"

text \<open>
  \<open>generateImage\<close>, lines 31 to 107: the client is resolved inside the \<^verbatim>\<open>try\<close> block,
  so what \<open>getAiClient\<close> throws is caught as well.
\<close>

definition generateImage ::
  "(jsstring \<Rightarrow> jsstring) \<Rightarrow> Models \<Rightarrow> jsstring option \<Rightarrow> jsstring \<Rightarrow> jsstring \<Rightarrow> jsstring
     \<Rightarrow> ImageInput option \<Rightarrow> jsstring option \<Rightarrow> effect list \<times> (thrown + jsstring)" where
  "generateImage unicodeLower backend env_API_KEY prompt aspectRatio model image_in apiKey =
     tryCatch unicodeLower
       (case getAiClient env_API_KEY apiKey of
          Inl error \<Rightarrow> ([], Inl error)
        | Inr ai \<Rightarrow> dispatch backend ai prompt aspectRatio model image_in)"

section \<open>The second service file (unnamed/part_001)\<close>

text \<open>
  Lines 3 to 8 run when the module is loaded: without a default credential the load
  throws, otherwise \<^verbatim>\<open>defaultAi\<close> is the client bound to it.
\<close>

definition loadModule :: "jsstring option \<Rightarrow> thrown + GoogleGenAI" where
  "loadModule env_API_KEY =
     (case env_API_KEY of
        None \<Rightarrow> Inl (Error (lit ''API_KEY environment variable not set.''))
      | Some k \<Rightarrow>
          if k = []
          then Inl (Error (lit ''API_KEY environment variable not set.''))
          else Inr (GoogleGenAI k))"

text \<open>\<open>getAiClient\<close> of this file, lines 15 to 20.\<close>

definition getAiClient_part001 :: "GoogleGenAI \<Rightarrow> jsstring option \<Rightarrow> GoogleGenAI" where
  "getAiClient_part001 defaultAi apiKey =
     (case apiKey of
        None \<Rightarrow> defaultAi
      | Some k \<Rightarrow> if k \<noteq> [] then GoogleGenAI k else defaultAi)"

text \<open>
  \<open>generateImage\<close> of this file, lines 31 to 107: the client is resolved before the
  \<^verbatim>\<open>try\<close> block; lines 40 to 106 are the text of the first file.
\<close>

definition generateImage_part001 ::
  "(jsstring \<Rightarrow> jsstring) \<Rightarrow> Models \<Rightarrow> GoogleGenAI \<Rightarrow> jsstring \<Rightarrow> jsstring \<Rightarrow> jsstring
     \<Rightarrow> ImageInput option \<Rightarrow> jsstring option \<Rightarrow> effect list \<times> (thrown + jsstring)" where
  "generateImage_part001 unicodeLower backend defaultAi prompt aspectRatio model image_in apiKey =
     (let ai = getAiClient_part001 defaultAi apiKey in
      tryCatch unicodeLower (dispatch backend ai prompt aspectRatio model image_in))"

section \<open>Backend stubs\<close>

text \<open>
  A backend that gives every request of an operation the same reply, for the concrete
  runs below.
\<close>

definition stubBackend ::
  "thrown + GenerateImagesResponse \<Rightarrow> thrown + GenerateContentResponse \<Rightarrow> Models" where
  "stubBackend imagesReply contentReply =
     \<lparr>generateImages = (\<lambda>ai request. imagesReply),
      generateContent = (\<lambda>ai request. contentReply)\<rparr>"

section \<open>The \<^verbatim>\<open>try\<close> and \<^verbatim>\<open>catch\<close> blocks, case by case\<close>

lemma edit_tag_not_imagen:
  "lit ''gemini-2.5-flash-image-preview'' \<noteq> lit ''imagen-4.0-generate-001''"
  by (simp add: lit_def)

lemma other_tag:
  "lit ''dall-e-3'' \<noteq> lit ''imagen-4.0-generate-001''"
  "lit ''dall-e-3'' \<noteq> lit ''gemini-2.5-flash-image-preview''"
  by (simp_all add: lit_def)

lemma tryCatch_returned: "tryCatch unicodeLower (effects, Inr payload) = (effects, Inr payload)"
  by (simp add: tryCatch_def)

lemma tryCatch_thrown:
  "tryCatch unicodeLower (effects, Inl error) =
     (effects @ [ConsoleError (lit ''Error generating image with Gemini API:'') error],
      Inl (snd (catchBlock unicodeLower error)))"
  by (simp add: tryCatch_def catchBlock_def)

lemma tryCatch_snd:
  "snd (tryCatch unicodeLower block) =
     (case snd block of
        Inr payload \<Rightarrow> Inr payload
      | Inl error \<Rightarrow> Inl (snd (catchBlock unicodeLower error)))"
  by (cases block) (simp add: tryCatch_def split: sum.splits prod.splits)

lemma tryCatch_backendCalls:
  "backendCalls (fst (tryCatch unicodeLower block)) = backendCalls (fst block)"
  by (cases block) (simp add: tryCatch_def catchBlock_def backendCalls_def split: sum.splits)

lemma backendCalls_member:
  "c \<in> set (backendCalls effects) \<longleftrightarrow> c \<in> set effects \<and> isBackendCall c"
  by (simp add: backendCalls_def)

section \<open>What the \<^verbatim>\<open>catch\<close> block makes of a message\<close>

lemma lower_missing_key:
  "String_toLowerCase unicodeLower
     (lit ''API key not provided. Please enter a key or configure the environment variable.'') =
   lit ''api key not provided. please enter a key or configure the environment variable.''"
  by (simp add: lit_def String_toLowerCase_def toLowerUnit_def)

lemma catchBlock_missing_key:
  "snd (catchBlock unicodeLower
     (Error (lit ''API key not provided. Please enter a key or configure the environment variable.''))) =
   Error (lit ''error_api_key'')"
  unfolding catchBlock_def snd_conv thrown.case Let_def lower_missing_key
  by (simp add: lit_def String_includes_def sublist_Cons_right)

lemma catchBlock_no_images:
  "snd (catchBlock unicodeLower (Error (lit ''error_no_images_returned''))) = Error (lit ''error_generic'')"
  by (simp add: catchBlock_def lit_def String_toLowerCase_def toLowerUnit_def String_includes_def sublist_Cons_right)

lemma catchBlock_edit_required:
  "snd (catchBlock unicodeLower (Error (lit ''error_prompt_or_image_required_for_edit''))) =
   Error (lit ''error_generic'')"
  by (simp add: catchBlock_def lit_def String_toLowerCase_def toLowerUnit_def String_includes_def sublist_Cons_right)

lemma catchBlock_quota:
  assumes "String_includes (String_toLowerCase unicodeLower message) (lit ''429'')
         \<or> String_includes (String_toLowerCase unicodeLower message) (lit ''quota'')
         \<or> String_includes (String_toLowerCase unicodeLower message) (lit ''resource_exhausted'')"
  shows "snd (catchBlock unicodeLower (Error message)) = Error (lit ''error_quota'')"
  using assms by (simp add: catchBlock_def Let_def)

section \<open>Resolving the client\<close>

lemma getAiClient_missing:
  assumes "\<not> truthy apiKey" and "\<not> truthy env_API_KEY"
  shows "getAiClient env_API_KEY apiKey =
     Inl (Error (lit ''API key not provided. Please enter a key or configure the environment variable.''))"
  using assms by (auto simp: getAiClient_def truthy_def split: option.splits)

lemma getAiClient_default:
  "getAiClient (Some (lit ''default-key'')) None = Inr (GoogleGenAI (lit ''default-key''))"
  by (simp add: getAiClient_def truthy_def lit_def)

lemma generateImage_resolved:
  assumes "getAiClient env_API_KEY apiKey = Inr ai"
  shows "generateImage unicodeLower backend env_API_KEY prompt aspectRatio model image_in apiKey =
     tryCatch unicodeLower (dispatch backend ai prompt aspectRatio model image_in)"
  by (simp add: generateImage_def assms)

lemma generateImage_unresolved:
  assumes "getAiClient env_API_KEY apiKey = Inl error"
  shows "backendCalls (fst (generateImage unicodeLower backend env_API_KEY prompt aspectRatio model image_in apiKey)) = []"
  unfolding generateImage_def assms sum.case tryCatch_backendCalls
  by (simp add: backendCalls_def)

section \<open>The three branches on the model tag\<close>

lemma dispatch_other:
  assumes "model \<noteq> lit ''imagen-4.0-generate-001''" and "model \<noteq> lit ''gemini-2.5-flash-image-preview''"
  shows "dispatch backend ai prompt aspectRatio model image_in =
     ([], Inl (Error (lit ''error_no_images_returned'')))"
  using assms by (simp add: dispatch_def)

lemma dispatch_imagen:
  "dispatch backend ai prompt aspectRatio (lit ''imagen-4.0-generate-001'') image_in =
     ([CallGenerateImages ai
         \<lparr>gi_model = lit ''imagen-4.0-generate-001'',
          gi_prompt = prompt,
          gi_config = \<lparr>gi_numberOfImages = 1,
                       gi_outputMimeType = lit ''image/png'',
                       gi_aspectRatio = aspectRatio\<rparr>\<rparr>],
      case generateImages backend ai
             \<lparr>gi_model = lit ''imagen-4.0-generate-001'',
              gi_prompt = prompt,
              gi_config = \<lparr>gi_numberOfImages = 1,
                           gi_outputMimeType = lit ''image/png'',
                           gi_aspectRatio = aspectRatio\<rparr>\<rparr> of
        Inl error \<Rightarrow> Inl error
      | Inr response \<Rightarrow>
          (case generatedImages response of
             Some (first # others) \<Rightarrow> Inr (imageBytes (image' first))
           | Some [] \<Rightarrow> Inl (Error (lit ''error_no_images_returned''))
           | None \<Rightarrow> Inl (Error (lit ''error_no_images_returned''))))"
  by (simp add: dispatch_def Let_def split: sum.splits option.splits list.splits)

text \<open>
  The edit branch, with the array \<^verbatim>\<open>parts\<close> written as one expression: the inline
  part when an image was supplied, then the text part when the prompt trims to a
  non-empty string.
\<close>

lemma dispatch_edit:
  "dispatch backend ai prompt aspectRatio (lit ''gemini-2.5-flash-image-preview'') image_in =
     (let sent = (case image_in of
                    None \<Rightarrow> []
                  | Some i \<Rightarrow> [\<lparr>text' = None, inlineData = Some \<lparr>data = data i, mimeType = mimeType i\<rparr>\<rparr>])
                 @ (if String_trim prompt = [] then [] else [\<lparr>text' = Some prompt, inlineData = None\<rparr>]);
          request = \<lparr>gc_model = lit ''gemini-2.5-flash-image-preview'',
                     gc_contents = \<lparr>parts = Some sent\<rparr>,
                     gc_config = \<lparr>gc_responseModalities = [IMAGE, TEXT]\<rparr>\<rparr>
      in if sent = [] then ([], Inl (Error (lit ''error_prompt_or_image_required_for_edit'')))
         else ([CallGenerateContent ai request],
               case generateContent backend ai request of
                 Inl error \<Rightarrow> Inl error
               | Inr response \<Rightarrow>
                   (case scanParts (responseParts response) of
                      Some payload \<Rightarrow> Inr payload
                    | None \<Rightarrow> Inl (Error (lit ''error_no_images_returned'')))))"
  by (simp add: dispatch_def Let_def edit_tag_not_imagen split: sum.splits option.splits)

lemma dispatch_edit_empty:
  assumes "String_trim prompt = []"
  shows "dispatch backend ai prompt aspectRatio (lit ''gemini-2.5-flash-image-preview'') None =
     ([], Inl (Error (lit ''error_prompt_or_image_required_for_edit'')))"
  using assms by (simp add: dispatch_def edit_tag_not_imagen)

lemma dispatch_calls:
  "fst (dispatch backend ai prompt aspectRatio model image_in) = [] \<or>
   (\<exists>request. fst (dispatch backend ai prompt aspectRatio model image_in) = [CallGenerateImages ai request]
       \<and> model = lit ''imagen-4.0-generate-001''
       \<and> snd (dispatch backend ai prompt aspectRatio model image_in) =
            (case generateImages backend ai request of
               Inl error \<Rightarrow> Inl error
             | Inr response \<Rightarrow>
                (case generatedImages response of
                   Some (first # others) \<Rightarrow> Inr (imageBytes (image' first))
                 | Some [] \<Rightarrow> Inl (Error (lit ''error_no_images_returned''))
                 | None \<Rightarrow> Inl (Error (lit ''error_no_images_returned''))))) \<or>
   (\<exists>request. fst (dispatch backend ai prompt aspectRatio model image_in) = [CallGenerateContent ai request]
       \<and> model = lit ''gemini-2.5-flash-image-preview''
       \<and> snd (dispatch backend ai prompt aspectRatio model image_in) =
            (case generateContent backend ai request of
               Inl error \<Rightarrow> Inl error
             | Inr response \<Rightarrow>
                 (case scanParts (responseParts response) of
                    Some payload \<Rightarrow> Inr payload
                  | None \<Rightarrow> Inl (Error (lit ''error_no_images_returned'')))))"
proof (cases "model = lit ''imagen-4.0-generate-001''")
  case True
  then show ?thesis by (simp add: dispatch_imagen)
next
  case False
  show ?thesis
  proof (cases "model = lit ''gemini-2.5-flash-image-preview''")
    case True
    then show ?thesis
      unfolding True dispatch_edit Let_def by (simp add: edit_tag_not_imagen)
  next
    case other: False
    with False show ?thesis by (simp add: dispatch_other)
  qed
qed

lemma scanParts_first:
  assumes "\<forall>p \<in> set before. inlineData p = None" and "inlineData part = Some blob"
  shows "scanParts (before @ part # after) = Some (data blob)"
  using assms by (induction before) simp_all

section \<open>Concrete strings of the runs below\<close>

lemma trim_blank: "String_trim (lit ''  '') = []"
  by (simp add: String_trim_def lit_def isWhiteSpace_def)

lemma trim_empty: "String_trim [] = []"
  by (simp add: String_trim_def)

lemma trim_add_a_hat: "String_trim (lit '' add a hat '') \<noteq> []"
  by (simp add: String_trim_def lit_def isWhiteSpace_def)

lemma lower_too_many_requests:
  "String_includes (String_toLowerCase (\<lambda>s. s) (lit ''429 Too Many Requests'')) (lit ''429'')"
  by (simp add: lit_def String_toLowerCase_def toLowerUnit_def String_includes_def sublist_Cons_right)

lemma lower_resource_exhausted:
  "String_includes (String_toLowerCase (\<lambda>s. s) (lit ''Status: RESOURCE_EXHAUSTED''))
     (lit ''resource_exhausted'')"
  by (simp add: lit_def String_toLowerCase_def toLowerUnit_def String_includes_def sublist_Cons_right)

section \<open>The codes a caller can observe\<close>

text \<open>
  Whatever \<open>generateImage\<close> throws has passed through the \<^verbatim>\<open>catch\<close> block, which
  throws one of three codes. The codes thrown at lines 71 and 89 are thrown inside the
  \<^verbatim>\<open>try\<close> block, so they are caught there too.
\<close>

lemma catchBlock_codes:
  "snd (catchBlock unicodeLower error) = Error (lit ''error_quota'')
   \<or> snd (catchBlock unicodeLower error) = Error (lit ''error_api_key'')
   \<or> snd (catchBlock unicodeLower error) = Error (lit ''error_generic'')"
  by (cases error) (simp_all add: catchBlock_def Let_def)

lemma generateImage_codes:
  assumes "snd (generateImage unicodeLower backend env_API_KEY prompt aspectRatio model image_in apiKey)
             = Inl error"
  shows "error = Error (lit ''error_quota'')
       \<or> error = Error (lit ''error_api_key'')
       \<or> error = Error (lit ''error_generic'')"
proof -
  obtain caught where "error = snd (catchBlock unicodeLower caught)"
    using assms unfolding generateImage_def tryCatch_snd by (auto split: sum.splits)
  then show ?thesis
    using catchBlock_codes [of unicodeLower caught] by simp
qed

section \<open>Properties of \<open>generateImage\<close>\<close>

subsection \<open>Missing credential\<close>

text \<open>
  Claim C1. When the override is undefined or empty and \<^verbatim>\<open>process.env.API_KEY\<close> is
  undefined or empty, \<open>generateImage\<close> of services/geminiService.ts throws
  \<^verbatim>\<open>error_api_key\<close>, and no backend operation is among its effects: the message
  \<open>getAiClient\<close> throws holds both \<^verbatim>\<open>api\<close> and \<^verbatim>\<open>key\<close> once lowercased.
\<close>

theorem generateImage_without_credential:
  assumes "\<not> truthy apiKey" and "\<not> truthy env_API_KEY"
  shows "snd (generateImage unicodeLower backend env_API_KEY prompt aspectRatio model image_in apiKey)
           = Inl (Error (lit ''error_api_key''))
       \<and> backendCalls (fst (generateImage unicodeLower backend env_API_KEY prompt aspectRatio model image_in apiKey))
           = []"
proof -
  have "generateImage unicodeLower backend env_API_KEY prompt aspectRatio model image_in apiKey =
     ([ConsoleError (lit ''Error generating image with Gemini API:'')
         (Error (lit ''API key not provided. Please enter a key or configure the environment variable.''))],
      Inl (Error (lit ''error_api_key'')))"
    unfolding generateImage_def getAiClient_missing [OF assms] sum.case tryCatch_thrown
      catchBlock_missing_key
    by simp
  then show ?thesis by (simp add: backendCalls_def)
qed

text \<open>
  A run with an empty override and no default credential.
\<close>

theorem generateImage_without_credential_witness:
  "\<not> truthy (Some []) \<and> \<not> truthy None
   \<and> snd (generateImage (\<lambda>s. s)
             (stubBackend (Inr \<lparr>generatedImages = None\<rparr>) (Inr \<lparr>candidates = None\<rparr>))
             None (lit ''a red fox'') (lit ''1:1'') (lit ''imagen-4.0-generate-001'') None (Some []))
         = Inl (Error (lit ''error_api_key''))
   \<and> backendCalls (fst (generateImage (\<lambda>s. s)
             (stubBackend (Inr \<lparr>generatedImages = None\<rparr>) (Inr \<lparr>candidates = None\<rparr>))
             None (lit ''a red fox'') (lit ''1:1'') (lit ''imagen-4.0-generate-001'') None (Some [])))
         = []"
  using generateImage_without_credential [of "Some []" None "\<lambda>s. s"
      "stubBackend (Inr \<lparr>generatedImages = None\<rparr>) (Inr \<lparr>candidates = None\<rparr>)"
      "lit ''a red fox''" "lit ''1:1''" "lit ''imagen-4.0-generate-001''" None]
  by (simp add: truthy_def)

subsection \<open>An edit request with nothing to send\<close>

text \<open>
  Claim C2 says that an edit call whose prompt trims to the empty string and that has
  no image ends with \<^verbatim>\<open>error_prompt_or_image_required_for_edit\<close> and no backend call.
  The code makes no backend call, and line 71 throws that code, but inside the
  \<^verbatim>\<open>try\<close> block: the \<^verbatim>\<open>catch\<close> block finds neither a quota marker nor
  \<^verbatim>\<open>api\<close> and \<^verbatim>\<open>key\<close> in it and throws \<^verbatim>\<open>error_generic\<close>. The run below has a default
  credential, a prompt of two spaces and no image; it holds for every backend.
\<close>

theorem generateImage_edit_nothing_supplied:
  "generateImage unicodeLower backend (Some (lit ''default-key'')) (lit ''  '') aspectRatio
     (lit ''gemini-2.5-flash-image-preview'') None None =
   ([ConsoleError (lit ''Error generating image with Gemini API:'')
       (Error (lit ''error_prompt_or_image_required_for_edit''))],
    Inl (Error (lit ''error_generic'')))"
  unfolding generateImage_def getAiClient_default sum.case dispatch_edit_empty [OF trim_blank]
    tryCatch_thrown catchBlock_edit_required
  by simp

subsection \<open>A backend answer without an image\<close>

text \<open>
  Claim C3 says that a call whose backend answer holds no image payload, or whose
  model tag is not recognised, ends with \<^verbatim>\<open>error_no_images_returned\<close>. Line 89 throws
  that code inside the \<^verbatim>\<open>try\<close> block, and the \<^verbatim>\<open>catch\<close> block turns it into
  \<^verbatim>\<open>error_generic\<close>. Three runs with a default credential: an unrecognised model tag,
  the text-to-image tag with an empty list of generated images, and the edit tag with
  an answer whose only part is text.
\<close>

theorem generateImage_no_payload_generic:
  "snd (generateImage unicodeLower backend (Some (lit ''default-key'')) prompt aspectRatio
          (lit ''dall-e-3'') image_in None)
     = Inl (Error (lit ''error_generic''))
   \<and> snd (generateImage unicodeLower
            (stubBackend (Inr \<lparr>generatedImages = Some []\<rparr>) contentReply)
            (Some (lit ''default-key'')) prompt aspectRatio (lit ''imagen-4.0-generate-001'') image_in None)
     = Inl (Error (lit ''error_generic''))
   \<and> snd (generateImage unicodeLower
            (stubBackend imagesReply
               (Inr \<lparr>candidates = Some [\<lparr>content = Some \<lparr>parts = Some [\<lparr>text' = Some (lit ''no image''), inlineData = None\<rparr>]\<rparr>\<rparr>]\<rparr>))
            (Some (lit ''default-key'')) (lit ''add a hat'') aspectRatio
            (lit ''gemini-2.5-flash-image-preview'') image_in None)
     = Inl (Error (lit ''error_generic''))"
proof (intro conjI)
  show "snd (generateImage unicodeLower backend (Some (lit ''default-key'')) prompt aspectRatio
          (lit ''dall-e-3'') image_in None) = Inl (Error (lit ''error_generic''))"
    unfolding generateImage_resolved [OF getAiClient_default] tryCatch_snd
      dispatch_other [OF other_tag]
    by (simp add: catchBlock_no_images)
  show "snd (generateImage unicodeLower
            (stubBackend (Inr \<lparr>generatedImages = Some []\<rparr>) contentReply)
            (Some (lit ''default-key'')) prompt aspectRatio (lit ''imagen-4.0-generate-001'') image_in None)
     = Inl (Error (lit ''error_generic''))"
    unfolding generateImage_resolved [OF getAiClient_default] tryCatch_snd dispatch_imagen
    by (simp add: stubBackend_def catchBlock_no_images)
  have hat: "String_trim (lit ''add a hat'') \<noteq> []"
    by (simp add: String_trim_def lit_def isWhiteSpace_def)
  show "snd (generateImage unicodeLower
            (stubBackend imagesReply
               (Inr \<lparr>candidates = Some [\<lparr>content = Some \<lparr>parts = Some [\<lparr>text' = Some (lit ''no image''), inlineData = None\<rparr>]\<rparr>\<rparr>]\<rparr>))
            (Some (lit ''default-key'')) (lit ''add a hat'') aspectRatio
            (lit ''gemini-2.5-flash-image-preview'') image_in None)
     = Inl (Error (lit ''error_generic''))"
    unfolding generateImage_resolved [OF getAiClient_default] tryCatch_snd dispatch_edit Let_def
    by (simp add: hat stubBackend_def responseParts_def catchBlock_no_images)
qed

subsection \<open>Quota errors\<close>

text \<open>
  Claim C4. When the backend operation that the invocation calls, whichever of the two
  it is, throws an \<^verbatim>\<open>Error\<close> whose lowercased message includes \<^verbatim>\<open>429\<close>,
  \<^verbatim>\<open>quota\<close> or \<^verbatim>\<open>resource_exhausted\<close>, \<open>generateImage\<close> throws \<^verbatim>\<open>error_quota\<close>.
  The call is the one recorded among the effects of the invocation.
\<close>

theorem generateImage_quota:
  assumes call:
    "(CallGenerateImages ai imagesRequest
        \<in> set (fst (generateImage unicodeLower backend env_API_KEY prompt aspectRatio model image_in apiKey))
      \<and> generateImages backend ai imagesRequest = Inl (Error message))
     \<or> (CallGenerateContent ai contentRequest
        \<in> set (fst (generateImage unicodeLower backend env_API_KEY prompt aspectRatio model image_in apiKey))
      \<and> generateContent backend ai contentRequest = Inl (Error message))"
    and marker:
    "String_includes (String_toLowerCase unicodeLower message) (lit ''429'')
     \<or> String_includes (String_toLowerCase unicodeLower message) (lit ''quota'')
     \<or> String_includes (String_toLowerCase unicodeLower message) (lit ''resource_exhausted'')"
  shows "snd (generateImage unicodeLower backend env_API_KEY prompt aspectRatio model image_in apiKey)
           = Inl (Error (lit ''error_quota''))"
proof (cases "getAiClient env_API_KEY apiKey")
  case (Inl error)
  have "backendCalls (fst (generateImage unicodeLower backend env_API_KEY prompt aspectRatio model image_in apiKey)) = []"
    by (rule generateImage_unresolved [OF Inl])
  moreover from call have
    "CallGenerateImages ai imagesRequest
       \<in> set (backendCalls (fst (generateImage unicodeLower backend env_API_KEY prompt aspectRatio model image_in apiKey)))
     \<or> CallGenerateContent ai contentRequest
       \<in> set (backendCalls (fst (generateImage unicodeLower backend env_API_KEY prompt aspectRatio model image_in apiKey)))"
    by (auto simp: backendCalls_member)
  ultimately show ?thesis by simp
next
  case (Inr client)
  let ?d = "dispatch backend client prompt aspectRatio model image_in"
  have run: "generateImage unicodeLower backend env_API_KEY prompt aspectRatio model image_in apiKey =
      tryCatch unicodeLower ?d"
    by (rule generateImage_resolved [OF Inr])
  from call have sent:
    "(CallGenerateImages ai imagesRequest \<in> set (fst ?d) \<and> generateImages backend ai imagesRequest = Inl (Error message))
     \<or> (CallGenerateContent ai contentRequest \<in> set (fst ?d) \<and> generateContent backend ai contentRequest = Inl (Error message))"
    using backendCalls_member [of _ "fst (tryCatch unicodeLower ?d)"]
      backendCalls_member [of _ "fst ?d"]
    unfolding run tryCatch_backendCalls by (metis isBackendCall.simps(1,2))
  have "snd ?d = Inl (Error message)"
    using dispatch_calls [of backend client prompt aspectRatio model image_in] sent
    by auto
  then show ?thesis
    unfolding run tryCatch_snd by (simp add: catchBlock_quota [OF marker])
qed

text \<open>
  One run on each branch: the text-to-image backend throws
  \<^verbatim>\<open>429 Too Many Requests\<close>, the edit backend throws \<^verbatim>\<open>Status: RESOURCE_EXHAUSTED\<close>.
\<close>

theorem generateImage_quota_witness:
  "snd (generateImage (\<lambda>s. s)
          (stubBackend (Inl (Error (lit ''429 Too Many Requests''))) (Inl NotAnError))
          (Some (lit ''default-key'')) (lit ''a red fox'') (lit ''1:1'')
          (lit ''imagen-4.0-generate-001'') None None)
     = Inl (Error (lit ''error_quota''))
   \<and> snd (generateImage (\<lambda>s. s)
          (stubBackend (Inl NotAnError) (Inl (Error (lit ''Status: RESOURCE_EXHAUSTED''))))
          (Some (lit ''default-key'')) (lit '' add a hat '') (lit ''1:1'')
          (lit ''gemini-2.5-flash-image-preview'') None None)
     = Inl (Error (lit ''error_quota''))"
proof
  let ?b = "stubBackend (Inl (Error (lit ''429 Too Many Requests''))) (Inl NotAnError)"
  let ?r = "\<lparr>gi_model = lit ''imagen-4.0-generate-001'', gi_prompt = lit ''a red fox'',
             gi_config = \<lparr>gi_numberOfImages = 1, gi_outputMimeType = lit ''image/png'',
                          gi_aspectRatio = lit ''1:1''\<rparr>\<rparr>"
  have "CallGenerateImages (GoogleGenAI (lit ''default-key'')) ?r
      \<in> set (fst (generateImage (\<lambda>s. s) ?b (Some (lit ''default-key'')) (lit ''a red fox'') (lit ''1:1'')
                    (lit ''imagen-4.0-generate-001'') None None))"
    unfolding generateImage_resolved [OF getAiClient_default] dispatch_imagen
    by (simp add: stubBackend_def tryCatch_thrown)
  moreover have "generateImages ?b (GoogleGenAI (lit ''default-key'')) ?r
      = Inl (Error (lit ''429 Too Many Requests''))"
    by (simp add: stubBackend_def)
  ultimately show "snd (generateImage (\<lambda>s. s) ?b (Some (lit ''default-key'')) (lit ''a red fox'') (lit ''1:1'')
                    (lit ''imagen-4.0-generate-001'') None None) = Inl (Error (lit ''error_quota''))"
    using generateImage_quota [where ai = "GoogleGenAI (lit ''default-key'')" and imagesRequest = ?r
        and unicodeLower = "\<lambda>s. s" and backend = ?b
        and env_API_KEY = "Some (lit ''default-key'')" and prompt = "lit ''a red fox''"
        and aspectRatio = "lit ''1:1''" and model = "lit ''imagen-4.0-generate-001''"
        and image_in = None and apiKey = None and message = "lit ''429 Too Many Requests''"
        and contentRequest = "\<lparr>gc_model = [], gc_contents = \<lparr>parts = None\<rparr>,
                         gc_config = \<lparr>gc_responseModalities = []\<rparr>\<rparr>"]
      lower_too_many_requests
    by blast
next
  let ?b = "stubBackend (Inl NotAnError) (Inl (Error (lit ''Status: RESOURCE_EXHAUSTED'')))"
  let ?r = "\<lparr>gc_model = lit ''gemini-2.5-flash-image-preview'',
             gc_contents = \<lparr>parts = Some [\<lparr>text' = Some (lit '' add a hat ''), inlineData = None\<rparr>]\<rparr>,
             gc_config = \<lparr>gc_responseModalities = [IMAGE, TEXT]\<rparr>\<rparr>"
  have "CallGenerateContent (GoogleGenAI (lit ''default-key'')) ?r
      \<in> set (fst (generateImage (\<lambda>s. s) ?b (Some (lit ''default-key'')) (lit '' add a hat '') (lit ''1:1'')
                    (lit ''gemini-2.5-flash-image-preview'') None None))"
    unfolding generateImage_resolved [OF getAiClient_default] dispatch_edit Let_def
    by (simp add: stubBackend_def tryCatch_thrown trim_add_a_hat)
  moreover have "generateContent ?b (GoogleGenAI (lit ''default-key'')) ?r
      = Inl (Error (lit ''Status: RESOURCE_EXHAUSTED''))"
    by (simp add: stubBackend_def)
  ultimately show "snd (generateImage (\<lambda>s. s) ?b (Some (lit ''default-key'')) (lit '' add a hat '') (lit ''1:1'')
                    (lit ''gemini-2.5-flash-image-preview'') None None) = Inl (Error (lit ''error_quota''))"
    using generateImage_quota [where ai = "GoogleGenAI (lit ''default-key'')" and contentRequest = ?r
        and unicodeLower = "\<lambda>s. s" and backend = ?b
        and env_API_KEY = "Some (lit ''default-key'')" and prompt = "lit '' add a hat ''"
        and aspectRatio = "lit ''1:1''" and model = "lit ''gemini-2.5-flash-image-preview''"
        and image_in = None and apiKey = None and message = "lit ''Status: RESOURCE_EXHAUSTED''"
        and imagesRequest = "\<lparr>gi_model = [], gi_prompt = [],
                         gi_config = \<lparr>gi_numberOfImages = 0, gi_outputMimeType = [],
                                      gi_aspectRatio = []\<rparr>\<rparr>"]
      lower_resource_exhausted
    by blast
qed

subsection \<open>The first generated image\<close>

text \<open>
  Claim C5. With the text-to-image tag, when the backend answers the request of lines
  41 to 49 with at least one generated image, \<open>generateImage\<close> returns the
  \<^verbatim>\<open>imageBytes\<close> of the first one, after that one backend call.
\<close>

theorem generateImage_imagen_first_image:
  assumes "getAiClient env_API_KEY apiKey = Inr ai"
    and "generateImages backend ai
           \<lparr>gi_model = lit ''imagen-4.0-generate-001'',
            gi_prompt = prompt,
            gi_config = \<lparr>gi_numberOfImages = 1,
                         gi_outputMimeType = lit ''image/png'',
                         gi_aspectRatio = aspectRatio\<rparr>\<rparr> = Inr response"
    and "generatedImages response = Some (first # others)"
  shows "generateImage unicodeLower backend env_API_KEY prompt aspectRatio
           (lit ''imagen-4.0-generate-001'') image_in apiKey =
         ([CallGenerateImages ai
             \<lparr>gi_model = lit ''imagen-4.0-generate-001'',
              gi_prompt = prompt,
              gi_config = \<lparr>gi_numberOfImages = 1,
                           gi_outputMimeType = lit ''image/png'',
                           gi_aspectRatio = aspectRatio\<rparr>\<rparr>],
          Inr (imageBytes (image' first)))"
  unfolding generateImage_resolved [OF assms(1)] dispatch_imagen assms(2) sum.case assms(3)
  by (simp add: tryCatch_returned)

text \<open>
  The run of the specification: prompt \<^verbatim>\<open>a red fox\<close>, aspect ratio \<^verbatim>\<open>1:1\<close>, a
  backend that answers with one image \<^verbatim>\<open>AAAA\<close>.
\<close>

theorem generateImage_imagen_first_image_witness:
  "getAiClient (Some (lit ''default-key'')) None = Inr (GoogleGenAI (lit ''default-key''))
   \<and> generateImage (\<lambda>s. s)
        (stubBackend (Inr \<lparr>generatedImages = Some [\<lparr>image' = \<lparr>imageBytes = lit ''AAAA''\<rparr>\<rparr>]\<rparr>)
           (Inl NotAnError))
        (Some (lit ''default-key'')) (lit ''a red fox'') (lit ''1:1'')
        (lit ''imagen-4.0-generate-001'') None None =
      ([CallGenerateImages (GoogleGenAI (lit ''default-key''))
          \<lparr>gi_model = lit ''imagen-4.0-generate-001'',
           gi_prompt = lit ''a red fox'',
           gi_config = \<lparr>gi_numberOfImages = 1,
                        gi_outputMimeType = lit ''image/png'',
                        gi_aspectRatio = lit ''1:1''\<rparr>\<rparr>],
       Inr (lit ''AAAA''))"
  using generateImage_imagen_first_image [of "Some (lit ''default-key'')" None
      "GoogleGenAI (lit ''default-key'')"
      "stubBackend (Inr \<lparr>generatedImages = Some [\<lparr>image' = \<lparr>imageBytes = lit ''AAAA''\<rparr>\<rparr>]\<rparr>) (Inl NotAnError)"
      "lit ''a red fox''" "lit ''1:1''"
      "\<lparr>generatedImages = Some [\<lparr>image' = \<lparr>imageBytes = lit ''AAAA''\<rparr>\<rparr>]\<rparr>"
      "\<lparr>image' = \<lparr>imageBytes = lit ''AAAA''\<rparr>\<rparr>" "[]" "\<lambda>s. s" None]
  by (simp add: getAiClient_default stubBackend_def)

subsection \<open>The first part with inline data\<close>

text \<open>
  Claim C6. With the edit tag, when the backend answers the request that the invocation
  sent, and the parts of the answer (those of its first candidate, the ones line 82
  reads) hold a part with \<^verbatim>\<open>inlineData\<close> after parts that have none,
  \<open>generateImage\<close> returns the \<^verbatim>\<open>data\<close> of that part.
\<close>

theorem generateImage_edit_first_inline_part:
  assumes sent: "CallGenerateContent ai request
        \<in> set (fst (generateImage unicodeLower backend env_API_KEY prompt aspectRatio
                      (lit ''gemini-2.5-flash-image-preview'') image_in apiKey))"
    and reply: "generateContent backend ai request = Inr response"
    and "candidates response = Some (candidate # others)"
    and "content candidate = Some c"
    and "parts c = Some (before @ part # after)"
    and "\<forall>p \<in> set before. inlineData p = None"
    and "inlineData part = Some blob"
  shows "snd (generateImage unicodeLower backend env_API_KEY prompt aspectRatio
                (lit ''gemini-2.5-flash-image-preview'') image_in apiKey) = Inr (data blob)"
proof (cases "getAiClient env_API_KEY apiKey")
  case (Inl error)
  from sent have "CallGenerateContent ai request
      \<in> set (backendCalls (fst (generateImage unicodeLower backend env_API_KEY prompt aspectRatio
                      (lit ''gemini-2.5-flash-image-preview'') image_in apiKey)))"
    by (simp add: backendCalls_member)
  then show ?thesis
    unfolding generateImage_unresolved [OF Inl] by simp
next
  case (Inr client)
  let ?d = "dispatch backend client prompt aspectRatio (lit ''gemini-2.5-flash-image-preview'') image_in"
  have run: "generateImage unicodeLower backend env_API_KEY prompt aspectRatio
      (lit ''gemini-2.5-flash-image-preview'') image_in apiKey = tryCatch unicodeLower ?d"
    by (rule generateImage_resolved [OF Inr])
  from sent have "CallGenerateContent ai request \<in> set (backendCalls (fst (tryCatch unicodeLower ?d)))"
    unfolding run by (simp add: backendCalls_member)
  then have member: "CallGenerateContent ai request \<in> set (fst ?d)"
    unfolding tryCatch_backendCalls by (simp add: backendCalls_member)
  have scan: "scanParts (responseParts response) = Some (data blob)"
    using assms(3-7) by (simp add: responseParts_def scanParts_first)
  have "snd ?d = Inr (data blob)"
    using dispatch_calls [of backend client prompt aspectRatio "lit ''gemini-2.5-flash-image-preview''" image_in]
      member reply scan
    by auto
  then show ?thesis
    unfolding run tryCatch_snd by simp
qed

text \<open>
  The run of the specification: an image, an empty prompt, and an answer whose first
  part is text and whose second part carries \<^verbatim>\<open>BBBB\<close>.
\<close>

theorem generateImage_edit_first_inline_part_witness:
  "snd (generateImage (\<lambda>s. s)
          (stubBackend (Inl NotAnError)
             (Inr \<lparr>candidates = Some [\<lparr>content = Some \<lparr>parts = Some
                     [\<lparr>text' = Some (lit ''Here is your image''), inlineData = None\<rparr>,
                      \<lparr>text' = None,
                       inlineData = Some \<lparr>data = lit ''BBBB'', mimeType = lit ''image/png''\<rparr>\<rparr>]\<rparr>\<rparr>]\<rparr>))
          (Some (lit ''default-key'')) [] (lit ''1:1'') (lit ''gemini-2.5-flash-image-preview'')
          (Some \<lparr>data = lit ''QUJD'', mimeType = lit ''image/jpeg''\<rparr>) None)
     = Inr (lit ''BBBB'')"
proof -
  let ?response = "\<lparr>candidates = Some [\<lparr>content = Some \<lparr>parts = Some
                     [\<lparr>text' = Some (lit ''Here is your image''), inlineData = None\<rparr>,
                      \<lparr>text' = None,
                       inlineData = Some \<lparr>data = lit ''BBBB'', mimeType = lit ''image/png''\<rparr>\<rparr>]\<rparr>\<rparr>]\<rparr>"
  let ?b = "stubBackend (Inl NotAnError) (Inr ?response)"
  let ?r = "\<lparr>gc_model = lit ''gemini-2.5-flash-image-preview'',
             gc_contents = \<lparr>parts = Some [\<lparr>text' = None,
                inlineData = Some \<lparr>data = lit ''QUJD'', mimeType = lit ''image/jpeg''\<rparr>\<rparr>]\<rparr>,
             gc_config = \<lparr>gc_responseModalities = [IMAGE, TEXT]\<rparr>\<rparr>"
  have sent: "CallGenerateContent (GoogleGenAI (lit ''default-key'')) ?r
      \<in> set (fst (generateImage (\<lambda>s. s) ?b (Some (lit ''default-key'')) [] (lit ''1:1'')
                    (lit ''gemini-2.5-flash-image-preview'')
                    (Some \<lparr>data = lit ''QUJD'', mimeType = lit ''image/jpeg''\<rparr>) None))"
    unfolding generateImage_resolved [OF getAiClient_default] dispatch_edit Let_def
    by (simp add: stubBackend_def tryCatch_returned trim_empty responseParts_def)
  have reply: "generateContent ?b (GoogleGenAI (lit ''default-key'')) ?r = Inr ?response"
    by (simp add: stubBackend_def)
  show ?thesis
    using generateImage_edit_first_inline_part [OF sent reply,
        of "\<lparr>content = Some \<lparr>parts = Some
                     [\<lparr>text' = Some (lit ''Here is your image''), inlineData = None\<rparr>,
                      \<lparr>text' = None,
                       inlineData = Some \<lparr>data = lit ''BBBB'', mimeType = lit ''image/png''\<rparr>\<rparr>]\<rparr>\<rparr>"
           "[]"
           "\<lparr>parts = Some
                     [\<lparr>text' = Some (lit ''Here is your image''), inlineData = None\<rparr>,
                      \<lparr>text' = None,
                       inlineData = Some \<lparr>data = lit ''BBBB'', mimeType = lit ''image/png''\<rparr>\<rparr>]\<rparr>"
           "[\<lparr>text' = Some (lit ''Here is your image''), inlineData = None\<rparr>]"
           "\<lparr>text' = None,
                       inlineData = Some \<lparr>data = lit ''BBBB'', mimeType = lit ''image/png''\<rparr>\<rparr>"
           "[]"
           "\<lparr>data = lit ''BBBB'', mimeType = lit ''image/png''\<rparr>"]
    by simp
qed

subsection \<open>The parts of an edit request\<close>

text \<open>
  Claim C7. With the edit tag and a client \<open>ai\<close> resolved, the backend calls of the
  invocation are: none when there is neither an image nor a prompt that trims to a
  non-empty string; otherwise the one \<^verbatim>\<open>generateContent\<close> call whose parts are the
  inline part with the data and media type of the image, exactly when an image was
  supplied, followed by the text part with the prompt, exactly when the prompt trims to
  a non-empty string.
\<close>

theorem generateImage_edit_request_parts:
  assumes "getAiClient env_API_KEY apiKey = Inr ai"
  shows "backendCalls (fst (generateImage unicodeLower backend env_API_KEY prompt aspectRatio
                              (lit ''gemini-2.5-flash-image-preview'') image_in apiKey)) =
     (if image_in = None \<and> String_trim prompt = [] then []
      else [CallGenerateContent ai
              \<lparr>gc_model = lit ''gemini-2.5-flash-image-preview'',
               gc_contents =
                 \<lparr>parts = Some
                    ((case image_in of
                        None \<Rightarrow> []
                      | Some i \<Rightarrow>
                          [\<lparr>text' = None,
                            inlineData = Some \<lparr>data = data i, mimeType = mimeType i\<rparr>\<rparr>])
                     @ (if String_trim prompt = [] then []
                        else [\<lparr>text' = Some prompt, inlineData = None\<rparr>]))\<rparr>,
               gc_config = \<lparr>gc_responseModalities = [IMAGE, TEXT]\<rparr>\<rparr>])"
  unfolding generateImage_resolved [OF assms] tryCatch_backendCalls dispatch_edit Let_def
  by (simp add: backendCalls_def split: option.splits)

text \<open>
  A run with an image and the prompt \<^verbatim>\<open> add a hat \<close>: two parts, the image first,
  the prompt as it was given.
\<close>

theorem generateImage_edit_request_parts_witness:
  "getAiClient (Some (lit ''default-key'')) None = Inr (GoogleGenAI (lit ''default-key''))
   \<and> backendCalls (fst (generateImage (\<lambda>s. s) (stubBackend (Inl NotAnError) (Inl NotAnError))
                          (Some (lit ''default-key'')) (lit '' add a hat '') (lit ''1:1'')
                          (lit ''gemini-2.5-flash-image-preview'')
                          (Some \<lparr>data = lit ''QUJD'', mimeType = lit ''image/jpeg''\<rparr>) None)) =
       [CallGenerateContent (GoogleGenAI (lit ''default-key''))
          \<lparr>gc_model = lit ''gemini-2.5-flash-image-preview'',
           gc_contents =
             \<lparr>parts = Some
                [\<lparr>text' = None,
                  inlineData = Some \<lparr>data = lit ''QUJD'', mimeType = lit ''image/jpeg''\<rparr>\<rparr>,
                 \<lparr>text' = Some (lit '' add a hat ''), inlineData = None\<rparr>]\<rparr>,
           gc_config = \<lparr>gc_responseModalities = [IMAGE, TEXT]\<rparr>\<rparr>]"
  using generateImage_edit_request_parts [OF getAiClient_default,
      where unicodeLower = "\<lambda>s. s" and backend = "stubBackend (Inl NotAnError) (Inl NotAnError)"
        and prompt = "lit '' add a hat ''" and aspectRatio = "lit ''1:1''"
        and image_in = "Some \<lparr>data = lit ''QUJD'', mimeType = lit ''image/jpeg''\<rparr>"]
  by (simp add: getAiClient_default trim_add_a_hat)

subsection \<open>The image argument on the text-to-image branch\<close>

text \<open>
  Claim C8. With the text-to-image tag, two invocations that differ only in the image
  argument have the same effects (so the same request) and the same result, against
  the same backend.
\<close>

theorem generateImage_imagen_ignores_image:
  "generateImage unicodeLower backend env_API_KEY prompt aspectRatio
     (lit ''imagen-4.0-generate-001'') image_a apiKey =
   generateImage unicodeLower backend env_API_KEY prompt aspectRatio
     (lit ''imagen-4.0-generate-001'') image_b apiKey"
  unfolding generateImage_def dispatch_imagen ..

text \<open>
  A run with an image and the same run without one.
\<close>

theorem generateImage_imagen_ignores_image_witness:
  "generateImage (\<lambda>s. s)
     (stubBackend (Inr \<lparr>generatedImages = Some [\<lparr>image' = \<lparr>imageBytes = lit ''AAAA''\<rparr>\<rparr>]\<rparr>)
        (Inl NotAnError))
     (Some (lit ''default-key'')) (lit ''a red fox'') (lit ''1:1'') (lit ''imagen-4.0-generate-001'')
     (Some \<lparr>data = lit ''QUJD'', mimeType = lit ''image/jpeg''\<rparr>) None =
   generateImage (\<lambda>s. s)
     (stubBackend (Inr \<lparr>generatedImages = Some [\<lparr>image' = \<lparr>imageBytes = lit ''AAAA''\<rparr>\<rparr>]\<rparr>)
        (Inl NotAnError))
     (Some (lit ''default-key'')) (lit ''a red fox'') (lit ''1:1'') (lit ''imagen-4.0-generate-001'')
     None None"
  by (rule generateImage_imagen_ignores_image)

subsection \<open>An empty override\<close>

text \<open>
  Claim C9. In both files an empty override resolves the client as no override does:
  in services/geminiService.ts to the client bound to the default credential when
  there is one, in the second file to \<^verbatim>\<open>defaultAi\<close>; so \<open>generateImage\<close> behaves the
  same for both. An override that is a non-empty string binds the client to itself.
\<close>

theorem empty_override_is_absent:
  "getAiClient env_API_KEY (Some []) = getAiClient env_API_KEY None
   \<and> (d \<noteq> [] \<longrightarrow> getAiClient (Some d) (Some []) = Inr (GoogleGenAI d))
   \<and> getAiClient_part001 defaultAi (Some []) = defaultAi
   \<and> getAiClient_part001 defaultAi None = defaultAi
   \<and> generateImage unicodeLower backend env_API_KEY prompt aspectRatio model image_in (Some []) =
       generateImage unicodeLower backend env_API_KEY prompt aspectRatio model image_in None
   \<and> generateImage_part001 unicodeLower backend defaultAi prompt aspectRatio model image_in (Some []) =
       generateImage_part001 unicodeLower backend defaultAi prompt aspectRatio model image_in None
   \<and> (k \<noteq> [] \<longrightarrow>
         getAiClient env_API_KEY (Some k) = Inr (GoogleGenAI k)
         \<and> getAiClient_part001 defaultAi (Some k) = GoogleGenAI k)"
proof -
  have same: "getAiClient env_API_KEY (Some []) = getAiClient env_API_KEY None"
    by (simp add: getAiClient_def truthy_def)
  have bound: "d \<noteq> [] \<longrightarrow> getAiClient (Some d) (Some []) = Inr (GoogleGenAI d)"
    by (simp add: getAiClient_def truthy_def)
  have other: "getAiClient_part001 defaultAi (Some []) = defaultAi"
    "getAiClient_part001 defaultAi None = defaultAi"
    by (simp_all add: getAiClient_part001_def)
  have override: "k \<noteq> [] \<longrightarrow>
         getAiClient env_API_KEY (Some k) = Inr (GoogleGenAI k)
         \<and> getAiClient_part001 defaultAi (Some k) = GoogleGenAI k"
    by (simp add: getAiClient_def getAiClient_part001_def truthy_def)
  show ?thesis
    unfolding generateImage_def generateImage_part001_def same other
    using bound override by simp
qed

text \<open>
  The default credential \<^verbatim>\<open>default-key\<close> and the override \<^verbatim>\<open>custom-key\<close>.
\<close>

theorem empty_override_is_absent_witness:
  "lit ''default-key'' \<noteq> [] \<and> lit ''custom-key'' \<noteq> []
   \<and> getAiClient (Some (lit ''default-key'')) (Some []) = Inr (GoogleGenAI (lit ''default-key''))
   \<and> getAiClient (Some (lit ''default-key'')) None = Inr (GoogleGenAI (lit ''default-key''))
   \<and> getAiClient (Some (lit ''default-key'')) (Some (lit ''custom-key'')) = Inr (GoogleGenAI (lit ''custom-key''))
   \<and> getAiClient_part001 (GoogleGenAI (lit ''default-key'')) (Some []) = GoogleGenAI (lit ''default-key'')
   \<and> getAiClient_part001 (GoogleGenAI (lit ''default-key'')) (Some (lit ''custom-key'')) = GoogleGenAI (lit ''custom-key'')"
proof -
  have keys: "lit ''default-key'' \<noteq> []" "lit ''custom-key'' \<noteq> []"
    by (simp_all add: lit_def)
  show ?thesis
    using empty_override_is_absent [where env_API_KEY = "Some (lit ''default-key'')"
        and d = "lit ''default-key''" and k = "lit ''custom-key''"
        and defaultAi = "GoogleGenAI (lit ''default-key'')"
        and unicodeLower = "\<lambda>s. s" and backend = "stubBackend (Inl NotAnError) (Inl NotAnError)"
        and prompt = "[]" and aspectRatio = "[]" and model = "[]" and image_in = None] keys
    by auto
qed

subsection \<open>The two files agree\<close>

text \<open>
  Claim C10. When \<^verbatim>\<open>process.env.API_KEY\<close> is a non-empty string \<open>d\<close>, the same when
  the second file is loaded and when \<open>generateImage\<close> is called, the second file loads
  with \<^verbatim>\<open>defaultAi\<close> bound to \<open>d\<close>, and its \<open>generateImage\<close> has the effects and the
  result of the one in services/geminiService.ts, for every input and backend.
\<close>

theorem generateImage_files_agree:
  assumes "env_API_KEY = Some d" and "d \<noteq> []"
  shows "loadModule env_API_KEY = Inr (GoogleGenAI d)
       \<and> generateImage_part001 unicodeLower backend (GoogleGenAI d) prompt aspectRatio model image_in apiKey =
         generateImage unicodeLower backend env_API_KEY prompt aspectRatio model image_in apiKey"
proof
  show "loadModule env_API_KEY = Inr (GoogleGenAI d)"
    using assms by (simp add: loadModule_def)
  have "getAiClient env_API_KEY apiKey = Inr (getAiClient_part001 (GoogleGenAI d) apiKey)"
    using assms by (auto simp: getAiClient_def getAiClient_part001_def truthy_def split: option.splits)
  then show "generateImage_part001 unicodeLower backend (GoogleGenAI d) prompt aspectRatio model image_in apiKey =
         generateImage unicodeLower backend env_API_KEY prompt aspectRatio model image_in apiKey"
    by (simp add: generateImage_def generateImage_part001_def)
qed

text \<open>
  A run of both with the default credential \<^verbatim>\<open>default-key\<close> and an override.
\<close>

theorem generateImage_files_agree_witness:
  "lit ''default-key'' \<noteq> []
   \<and> loadModule (Some (lit ''default-key'')) = Inr (GoogleGenAI (lit ''default-key''))
   \<and> generateImage_part001 (\<lambda>s. s)
        (stubBackend (Inr \<lparr>generatedImages = Some [\<lparr>image' = \<lparr>imageBytes = lit ''AAAA''\<rparr>\<rparr>]\<rparr>)
           (Inl NotAnError))
        (GoogleGenAI (lit ''default-key'')) (lit ''a red fox'') (lit ''1:1'')
        (lit ''imagen-4.0-generate-001'') None (Some (lit ''custom-key'')) =
      generateImage (\<lambda>s. s)
        (stubBackend (Inr \<lparr>generatedImages = Some [\<lparr>image' = \<lparr>imageBytes = lit ''AAAA''\<rparr>\<rparr>]\<rparr>)
           (Inl NotAnError))
        (Some (lit ''default-key'')) (lit ''a red fox'') (lit ''1:1'')
        (lit ''imagen-4.0-generate-001'') None (Some (lit ''custom-key''))"
proof -
  have key: "lit ''default-key'' \<noteq> []"
    by (simp add: lit_def)
  show ?thesis
    using generateImage_files_agree [OF refl key] key by simp
qed

end
